theory Spec2Isabelle
  imports Main "HOL-Library.Word"
begin

section \<open>Port configuration idioms of \<^verbatim>\<open>options/options.go\<close>\<close>

text \<open>
  The source file shows four idioms for configuring the listen port of an HTTP server:
  a raw pointer argument, a config struct, a builder, and functional options. Each idiom
  has its own \<^verbatim>\<open>NewServer\<close>. Below, \<open>NewServer\<close> is the one of the functional-options
  idiom and \<open>NewServer_procedural\<close> the one that takes the raw pointer.

  Modelling decisions:
  \<^item> Go's \<^verbatim>\<open>int\<close> is a 64-bit two's complement integer on the usual platforms:
    \<open>64 word\<close>, read through \<open>sint\<close>. The program only compares these integers
    with zero and prints them; it does no arithmetic on them.
  \<^item> A \<^verbatim>\<open>*int\<close> is \<open>go_int option\<close>: \<open>None\<close> is \<^verbatim>\<open>nil\<close>, \<open>Some v\<close> a pointer
    to a cell holding \<open>v\<close>. No cell is written after its creation, so the pointee
    stands for the pointer. The functional-options idiom is embedded a second time
    with addresses and a memory, and the two embeddings are proved to agree
    (\<open>NewServer_at_outcome\<close>).
  \<^item> Dereferencing \<^verbatim>\<open>nil\<close> is a run-time panic. A call therefore ends in one of three
    ways: it returns a value with a \<^verbatim>\<open>nil\<close> error, it returns an error made by
    \<^verbatim>\<open>errors.New\<close>, or it panics. The last two are the \<open>Inl\<close> side of a sum.
  \<^item> A function that mutates a struct through a pointer takes the struct and returns
    the updated one. The pointer itself (a method's receiver, the argument of an
    \<^verbatim>\<open>Option\<close>) is never \<^verbatim>\<open>nil\<close> in the program: it is the address of a struct the
    caller has just created.
\<close>

subsection \<open>Data\<close>

type_synonym go_int = "64 word"

datatype error = errors_New string

datatype abort =
    Returned error      \<comment> \<open>the function returned a non-nil error\<close>
  | NilDereference      \<comment> \<open>run-time panic: nil pointer dereference\<close>

text \<open>\<^verbatim>\<open>http.Server\<close>, of which only \<^verbatim>\<open>Addr\<close> is set.\<close>

record Server =
  Addr :: string

text \<open>\<^verbatim>\<open>type options struct { port *int }\<close> (functional options).\<close>

record options =
  port :: "go_int option"

text \<open>
  \<^verbatim>\<open>type ConfigBuilder struct { port *int }\<close> (builder). Its field has the name of
  the field of \<open>options\<close>; below, both are written with their record's name.
\<close>

record ConfigBuilder =
  port :: "go_int option"

text \<open>
  The builder's \<^verbatim>\<open>Config\<close>. \<^verbatim>\<open>build\<close> assigns the builder's \<^verbatim>\<open>*int\<close> to
  \<^verbatim>\<open>cfg.Port\<close>, so the field is the \<^verbatim>\<open>Port *int\<close> of the declaration at lines 59-62
  (the declaration at lines 99-101 spells it \<^verbatim>\<open>Post int\<close>).
\<close>

record Config =
  Port :: "go_int option"

text \<open>
  \<^verbatim>\<open>type Option func(options *options) error\<close>: the returned pair is the error
  (\<open>None\<close> for \<^verbatim>\<open>nil\<close>) and the struct as the call leaves it.
\<close>

type_synonym Option = "options \<Rightarrow> error option \<times> options"

subsection \<open>\<^verbatim>\<open>strconv.Itoa\<close>\<close>

text \<open>
  \<^verbatim>\<open>strconv.Itoa\<close> belongs to the Go standard library, not to this repository. It is
  modelled from its documented behaviour, the base-10 text of an \<^verbatim>\<open>int\<close>: a minus
  sign for a negative value, then the digits of the magnitude, most significant first,
  with no leading zero; each digit is read from the table \<^verbatim>\<open>"0123456789"\<close>.
\<close>

text \<open>The table is only read at an index below ten (\<open>u < 10\<close>, or \<open>u mod 10\<close>).\<close>

definition digit :: "nat \<Rightarrow> char" where
  "digit d = ''0123456789'' ! d"

fun FormatUint :: "nat \<Rightarrow> string" where
  "FormatUint u = (if u < 10 then [digit u] else FormatUint (u div 10) @ [digit (u mod 10)])"

declare FormatUint.simps [simp del]

definition FormatInt :: "int \<Rightarrow> string" where
  "FormatInt i = (if i < 0 then CHR ''-'' # FormatUint (nat (- i)) else FormatUint (nat i))"

definition Itoa :: "go_int \<Rightarrow> string" where
  "Itoa i = FormatInt (sint i)"

text \<open>
  The number a string of decimal digits denotes. It is not part of the program: it is
  the reading against which the text produced by \<open>FormatUint\<close> is checked below.
\<close>

definition digit_value :: "char \<Rightarrow> nat" where
  "digit_value c = of_char c - 48"

definition decimal_value :: "string \<Rightarrow> nat" where
  "decimal_value cs = foldl (\<lambda>a c. 10 * a + digit_value c) 0 cs"

subsection \<open>Procedural idiom (lines 28-42)\<close>

text \<open>
  \<^verbatim>\<open>func NewServer(addr string, port *int) (*http.Server, error)\<close>. The first statement
  reads \<^verbatim>\<open>*port\<close>, before the \<^verbatim>\<open>nil\<close> test; the bodies of the \<^verbatim>\<open>nil\<close> test and of
  the zero test are empty.
\<close>

definition NewServer_procedural :: "string \<Rightarrow> go_int option \<Rightarrow> abort + Server" where
  "NewServer_procedural addr port_ptr =
     (case port_ptr of
        None \<Rightarrow> Inl NilDereference
      | Some p \<Rightarrow>
          if sint p < 0 then Inl (Returned (errors_New ''port cannot be negative''))
          else Inr \<lparr>Addr = addr @ '':'' @ Itoa p\<rparr>)"

subsection \<open>Functional options idiom (lines 149-186)\<close>

text \<open>\<^verbatim>\<open>func WithPort(port int) Option\<close>: the closure tests before it stores.\<close>

definition WithPort :: "go_int \<Rightarrow> Option" where
  "WithPort p = (\<lambda>opts.
     if sint p < 0 then (Some (errors_New ''port cannot be negative''), opts)
     else (None, opts\<lparr>options.port := Some p\<rparr>))"

text \<open>
  The loop \<^verbatim>\<open>for _, opt := range opts\<close> of \<^verbatim>\<open>NewServer\<close> (lines 168-173): the options
  are applied in order to the one struct; the first non-nil error ends the loop, and
  the function.
\<close>

fun apply_opts :: "Option list \<Rightarrow> options \<Rightarrow> error option \<times> options" where
  "apply_opts [] s = (None, s)"
| "apply_opts (opt # rest) s =
     (case opt s of
        (Some err, s') \<Rightarrow> (Some err, s')
      | (None, s') \<Rightarrow> apply_opts rest s')"

text \<open>
  Lines 175-183: the local \<^verbatim>\<open>port\<close> starts at zero; the \<^verbatim>\<open>nil\<close> test has an empty
  body; the next statement reads \<^verbatim>\<open>*options.port\<close>, and copies it unless it is zero.
\<close>

definition NewServer_port :: "options \<Rightarrow> abort + go_int" where
  "NewServer_port s =
     (case options.port s of
        None \<Rightarrow> Inl NilDereference
      | Some p \<Rightarrow> if p = 0 then Inr 0 else Inr p)"

text \<open>
  \<^verbatim>\<open>func NewServer(addr string, opts ...Option) (*http.Server, error)\<close>: the struct
  starts as the zero value, whose pointer is \<^verbatim>\<open>nil\<close>.
\<close>

definition NewServer :: "string \<Rightarrow> Option list \<Rightarrow> abort + Server" where
  "NewServer addr opts =
     (case apply_opts opts \<lparr>options.port = None\<rparr> of
        (Some err, _) \<Rightarrow> Inl (Returned err)
      | (None, s) \<Rightarrow>
          (case NewServer_port s of
             Inl a \<Rightarrow> Inl a
           | Inr p \<Rightarrow> Inr \<lparr>Addr = addr @ '':'' @ Itoa p\<rparr>))"

subsection \<open>Functional options idiom, with the memory (lines 137-186)\<close>

text \<open>
  The embedding above writes the pointee for the pointer and a HOL function for an
  \<^verbatim>\<open>Option\<close>, so it cannot say what a call reads or writes besides its arguments. The
  same code is therefore embedded once more with the memory explicit. The memory holds
  the \<^verbatim>\<open>int\<close> variables whose address is taken: a content for every address, and the
  next address the allocator hands out; the addresses below it are the ones in use.
\<close>

type_synonym ref = nat

record memory =
  cells :: "ref \<Rightarrow> go_int"
  fresh :: ref

text \<open>\<^verbatim>\<open>options\<close> again, its \<^verbatim>\<open>port *int\<close> now an address, \<open>None\<close> for \<^verbatim>\<open>nil\<close>.\<close>

record options_at =
  port :: "ref option"

text \<open>
  An \<^verbatim>\<open>Option\<close> value is a closure: code and captured variables. The function literal
  of lines 156-163 is the only \<^verbatim>\<open>Option\<close> the repository makes; it captures the
  parameter \<^verbatim>\<open>port\<close> of \<^verbatim>\<open>WithPort\<close>, a variable of its own for every call of
  \<^verbatim>\<open>WithPort\<close>. The closure is that variable's address.
\<close>

datatype closure = WithPort_func ref

fun captured :: "closure \<Rightarrow> ref" where
  "captured (WithPort_func r) = r"

text \<open>A new \<^verbatim>\<open>int\<close> variable with the initial value \<open>v\<close>.\<close>

definition new_int :: "go_int \<Rightarrow> memory \<Rightarrow> ref \<times> memory" where
  "new_int v m = (fresh m, m\<lparr>cells := (cells m)(fresh m := v), fresh := Suc (fresh m)\<rparr>)"

text \<open>\<^verbatim>\<open>WithPort(port)\<close> (lines 155-164): the parameter becomes a variable, the result is
  the closure over it.\<close>

definition WithPort_at :: "go_int \<Rightarrow> memory \<Rightarrow> closure \<times> memory" where
  "WithPort_at p m = (case new_int p m of (r, m') \<Rightarrow> (WithPort_func r, m'))"

text \<open>
  A call \<^verbatim>\<open>opt(&options)\<close> of the closure (lines 156-163): it reads the captured
  \<^verbatim>\<open>port\<close>, and stores its address, \<^verbatim>\<open>&port\<close>, in the struct. It returns the error, the
  struct and the memory as it leaves them.
\<close>

fun call_Option :: "closure \<Rightarrow> options_at \<Rightarrow> memory \<Rightarrow> (error option \<times> options_at) \<times> memory" where
  "call_Option (WithPort_func r) opts m =
     (if sint (cells m r) < 0 then ((Some (errors_New ''port cannot be negative''), opts), m)
      else ((None, opts\<lparr>options_at.port := Some r\<rparr>), m))"

text \<open>The loop of lines 168-173.\<close>

fun range_opts :: "closure list \<Rightarrow> options_at \<Rightarrow> memory \<Rightarrow> (error option \<times> options_at) \<times> memory" where
  "range_opts [] s m = ((None, s), m)"
| "range_opts (opt # rest) s m =
     (case call_Option opt s m of
        ((Some err, s'), m') \<Rightarrow> ((Some err, s'), m')
      | ((None, s'), m') \<Rightarrow> range_opts rest s' m')"

text \<open>
  \<^verbatim>\<open>NewServer\<close> (lines 166-185): the loop, then the read of \<^verbatim>\<open>*options.port\<close> at line
  179, which panics on \<^verbatim>\<open>nil\<close>; the local \<^verbatim>\<open>port\<close> keeps its zero unless the value read
  is not zero.
\<close>

definition NewServer_at :: "string \<Rightarrow> closure list \<Rightarrow> memory \<Rightarrow> (abort + Server) \<times> memory" where
  "NewServer_at addr opts m =
     (case range_opts opts \<lparr>options_at.port = None\<rparr> m of
        ((Some err, _), m') \<Rightarrow> (Inl (Returned err), m')
      | ((None, s), m') \<Rightarrow>
          (case options_at.port s of
             None \<Rightarrow> (Inl NilDereference, m')
           | Some r \<Rightarrow>
               (Inr \<lparr>Addr = addr @ '':'' @ Itoa (if cells m' r = 0 then 0 else cells m' r)\<rparr>, m')))"

text \<open>
  The two calls of \<^verbatim>\<open>main\<close>: \<^verbatim>\<open>NewServer("localhost", WithPort(port))\<close> at line 141 when
  a port is requested, and \<^verbatim>\<open>NewServer("localhost")\<close> of line 140 when none is. The host
  and the port, constants in \<^verbatim>\<open>main\<close>, are parameters here.
\<close>

definition main_NewServer :: "string \<Rightarrow> go_int option \<Rightarrow> memory \<Rightarrow> (abort + Server) \<times> memory" where
  "main_NewServer addr request m =
     (case request of
        None \<Rightarrow> NewServer_at addr [] m
      | Some p \<Rightarrow> (case WithPort_at p m of (opt, m') \<Rightarrow> NewServer_at addr [opt] m'))"

subsection \<open>Builder idiom (lines 103-127)\<close>

text \<open>
  \<^verbatim>\<open>func (b *ConfigBuilder) Port(port int) *ConfigBuilder\<close>: stores a pointer to its
  argument and returns the receiver. There is no test and no error result.
\<close>

definition Port :: "ConfigBuilder \<Rightarrow> go_int \<Rightarrow> ConfigBuilder" where
  "Port b p = b\<lparr>ConfigBuilder.port := Some p\<rparr>"

text \<open>
  \<^verbatim>\<open>func (b *ConfigBuilder) build() (Config, error)\<close>: the \<^verbatim>\<open>nil\<close> test has an empty
  body and the next statement reads \<^verbatim>\<open>*b.port\<close>; the zero test has an empty body too.
\<close>

definition build :: "ConfigBuilder \<Rightarrow> abort + Config" where
  "build b =
     (case ConfigBuilder.port b of
        None \<Rightarrow> Inl NilDereference
      | Some p \<Rightarrow>
          if sint p < 0 then Inl (Returned (errors_New ''port cannot be negative''))
          else Inr \<lparr>Config.Port = ConfigBuilder.port b\<rparr>)"

section \<open>The decimal text of a port\<close>

lemma FormatUint_small: "u < 10 \<Longrightarrow> FormatUint u = [digit u]"
  by (simp add: FormatUint.simps)

lemma FormatUint_large:
  "\<not> u < 10 \<Longrightarrow> FormatUint u = FormatUint (u div 10) @ [digit (u mod 10)]"
  by (subst FormatUint.simps) simp

lemmas Itoa_eval = Itoa_def FormatInt_def FormatUint_small FormatUint_large digit_def

lemma Itoa_0: "Itoa 0 = ''0''"
  by (simp add: Itoa_eval)

lemma below_ten: "d < 10 \<Longrightarrow> d \<in> {0, 1, 2, 3, 4, 5, 6, 7, 8, 9 :: nat}"
  by auto

lemma digit_value_digit: "d < 10 \<Longrightarrow> digit_value (digit d) = d"
  by (drule below_ten) (auto simp: digit_value_def digit_def)

lemma digit_in_table: "d < 10 \<Longrightarrow> digit d \<in> set ''0123456789''"
  by (drule below_ten) (auto simp: digit_def)

lemma decimal_value_snoc: "decimal_value (cs @ [c]) = 10 * decimal_value cs + digit_value c"
  by (simp add: decimal_value_def)

text \<open>Reading the text of a number gives the number back.\<close>

lemma decimal_value_FormatUint: "decimal_value (FormatUint u) = u"
proof (induction u rule: FormatUint.induct)
  case (1 u)
  show ?case
  proof (cases "u < 10")
    case True
    then show ?thesis
      by (simp add: FormatUint_small decimal_value_def digit_value_digit)
  next
    case False
    with "1.IH" have "decimal_value (FormatUint (u div 10)) = u div 10" by simp
    with False show ?thesis
      by (simp add: FormatUint_large decimal_value_snoc digit_value_digit)
  qed
qed

lemma FormatUint_digits: "set (FormatUint u) \<subseteq> set ''0123456789''"
proof (induction u rule: FormatUint.induct)
  case (1 u)
  show ?case
  proof (cases "u < 10")
    case True
    with digit_in_table [of u] show ?thesis
      by (simp add: FormatUint_small)
  next
    case False
    with "1.IH" have "set (FormatUint (u div 10)) \<subseteq> set ''0123456789''" by simp
    moreover have "digit (u mod 10) \<in> set ''0123456789''"
      by (rule digit_in_table) simp
    ultimately show ?thesis using False
      by (simp add: FormatUint_large)
  qed
qed

lemma FormatUint_inject: "FormatUint a = FormatUint b \<Longrightarrow> a = b"
  by (metis decimal_value_FormatUint)

lemma FormatUint_no_sign: "CHR ''-'' # cs \<noteq> FormatUint u"
proof
  assume "CHR ''-'' # cs = FormatUint u"
  then have "CHR ''-'' \<in> set (FormatUint u)"
    by (metis list.set_intros(1))
  with FormatUint_digits [of u] show False by auto
qed

lemma FormatInt_inject: "FormatInt i = FormatInt j \<Longrightarrow> i = j"
proof -
  assume eq: "FormatInt i = FormatInt j"
  consider "i < 0" "j < 0" | "i < 0" "\<not> j < 0" | "\<not> i < 0" "j < 0" | "\<not> i < 0" "\<not> j < 0"
    by blast
  then show "i = j"
  proof cases
    case 1
    with eq have "nat (- i) = nat (- j)"
      by (simp add: FormatInt_def FormatUint_inject)
    with 1 show ?thesis by simp
  next
    case 2
    with eq FormatUint_no_sign [of "FormatUint (nat (- i))" "nat j"] show ?thesis
      by (simp add: FormatInt_def)
  next
    case 3
    with eq FormatUint_no_sign [of "FormatUint (nat (- j))" "nat i"] show ?thesis
      by (simp add: FormatInt_def)
  next
    case 4
    with eq have "nat i = nat j"
      by (simp add: FormatInt_def FormatUint_inject)
    with 4 show ?thesis by simp
  qed
qed

text \<open>Two ports with the same text are the same port: the address names the port.\<close>

lemma Itoa_inject: "Itoa a = Itoa b \<Longrightarrow> a = b"
proof -
  assume "Itoa a = Itoa b"
  then have "sint a = sint b"
    by (simp add: Itoa_def FormatInt_inject)
  then show "a = b" by (rule signed_word_eqI)
qed

section \<open>The option loop\<close>

lemma WithPort_negative:
  "sint v < 0 \<Longrightarrow> WithPort v s = (Some (errors_New ''port cannot be negative''), s)"
  by (simp add: WithPort_def)

lemma WithPort_nonnegative:
  "\<not> sint v < 0 \<Longrightarrow> WithPort v s = (None, s\<lparr>options.port := Some v\<rparr>)"
  by (simp add: WithPort_def)

lemma apply_opts_append:
  "apply_opts pre s = (None, s1) \<Longrightarrow> apply_opts (pre @ rest) s = apply_opts rest s1"
  by (induction pre arbitrary: s) (auto split: prod.splits option.splits)

lemma apply_opts_WithPort_snoc:
  "\<forall>v\<in>set vs. \<not> sint v < 0 \<Longrightarrow> \<not> sint w < 0 \<Longrightarrow>
     apply_opts (map WithPort (vs @ [w])) s = (None, s\<lparr>options.port := Some w\<rparr>)"
  by (induction vs arbitrary: s) (simp_all add: WithPort_nonnegative)

section \<open>The memory\<close>

text \<open>A call of a closure, the loop and \<^verbatim>\<open>NewServer\<close> itself write to no cell.\<close>

lemma call_Option_memory: "snd (call_Option opt s m) = m"
  by (cases opt) simp

lemma range_opts_memory: "snd (range_opts opts s m) = m"
proof (induction opts arbitrary: s)
  case Nil
  show ?case by simp
next
  case (Cons opt rest)
  obtain e s' m' where step: "call_Option opt s m = ((e, s'), m')"
    by (metis prod.collapse)
  with call_Option_memory [of opt s m] have "m' = m" by simp
  with step Cons.IH [of s'] show ?case
    by (cases e) simp_all
qed

lemma NewServer_at_memory: "snd (NewServer_at addr opts m) = m"
proof -
  obtain e s m' where loop: "range_opts opts \<lparr>options_at.port = None\<rparr> m = ((e, s), m')"
    by (metis prod.collapse)
  with range_opts_memory [of opts "\<lparr>options_at.port = None\<rparr>" m] have "m' = m" by simp
  with loop show ?thesis
    by (cases e; cases "options_at.port s") (simp_all add: NewServer_at_def)
qed

text \<open>
  The two embeddings agree: \<^verbatim>\<open>NewServer\<close> with the memory ends as \<^verbatim>\<open>NewServer\<close> without it
  does when each closure is replaced by \<open>WithPort\<close> of the content of its variable. The
  structs correspond when the one holds the address of the value the other holds.
\<close>

lemma call_Option_WithPort:
  "map_option (cells m) (options_at.port s) = options.port t \<Longrightarrow>
   call_Option opt s m = ((e, s'), m') \<Longrightarrow>
   \<exists>t'. WithPort (cells m (captured opt)) t = (e, t') \<and>
        map_option (cells m) (options_at.port s') = options.port t'"
  by (cases opt) (auto simp: WithPort_def split: if_splits)

lemma range_opts_apply_opts:
  "map_option (cells m) (options_at.port s) = options.port t \<Longrightarrow>
   range_opts opts s m = ((e, s'), m') \<Longrightarrow>
   \<exists>t'. apply_opts (map (\<lambda>opt. WithPort (cells m (captured opt))) opts) t = (e, t') \<and>
        map_option (cells m) (options_at.port s') = options.port t'"
proof (induction opts arbitrary: s t)
  case Nil
  then show ?case by auto
next
  case (Cons opt rest)
  obtain e1 s1 m1 where step: "call_Option opt s m = ((e1, s1), m1)"
    by (metis prod.collapse)
  with call_Option_memory [of opt s m] have m1: "m1 = m" by simp
  from call_Option_WithPort [OF Cons.prems(1) step]
  obtain t1 where t1: "WithPort (cells m (captured opt)) t = (e1, t1)"
      and rel: "map_option (cells m) (options_at.port s1) = options.port t1"
    by blast
  show ?case
  proof (cases e1)
    case (Some err)
    with step t1 rel Cons.prems(2) show ?thesis by auto
  next
    case None
    with step m1 Cons.prems(2) have "range_opts rest s1 m = ((e, s'), m')" by simp
    from Cons.IH [OF rel this] None t1 show ?thesis by simp
  qed
qed

lemma NewServer_at_outcome:
  "fst (NewServer_at addr opts m) =
     NewServer addr (map (\<lambda>opt. WithPort (cells m (captured opt))) opts)"
proof -
  obtain e s m' where loop: "range_opts opts \<lparr>options_at.port = None\<rparr> m = ((e, s), m')"
    by (metis prod.collapse)
  with range_opts_memory [of opts "\<lparr>options_at.port = None\<rparr>" m] have m': "m' = m" by simp
  have "map_option (cells m) (options_at.port \<lparr>options_at.port = None\<rparr>) =
      options.port \<lparr>options.port = None\<rparr>"
    by simp
  from range_opts_apply_opts [OF this loop]
  obtain t where t: "apply_opts (map (\<lambda>opt. WithPort (cells m (captured opt))) opts)
        \<lparr>options.port = None\<rparr> = (e, t)"
      and rel: "map_option (cells m) (options_at.port s) = options.port t"
    by blast
  show ?thesis
  proof (cases e)
    case (Some err)
    with loop t show ?thesis by (simp add: NewServer_at_def NewServer_def)
  next
    case None
    from rel have "options.port t = map_option (cells m) (options_at.port s)" by simp
    with None loop t m' show ?thesis
      by (cases "options_at.port s")
        (simp_all add: NewServer_at_def NewServer_def NewServer_port_def)
  qed
qed

text \<open>So \<^verbatim>\<open>NewServer\<close> reads nothing of the memory but the variables its options captured.\<close>

lemma NewServer_at_reads_captured:
  assumes "\<forall>opt\<in>set opts. cells m1 (captured opt) = cells m2 (captured opt)"
  shows "fst (NewServer_at addr opts m1) = fst (NewServer_at addr opts m2)"
proof -
  from assms have "map (\<lambda>opt. WithPort (cells m1 (captured opt))) opts =
      map (\<lambda>opt. WithPort (cells m2 (captured opt))) opts"
    by simp
  then show ?thesis
    by (simp only: NewServer_at_outcome)
qed

text \<open>
  A call of \<^verbatim>\<open>main\<close>'s kind ends as the embedding without memory says, whatever the
  memory it starts in.
\<close>

lemma main_NewServer_outcome:
  "fst (main_NewServer addr request m) =
     NewServer addr (case request of None \<Rightarrow> [] | Some p \<Rightarrow> [WithPort p])"
proof (cases request)
  case None
  then show ?thesis
    by (simp add: main_NewServer_def NewServer_at_def NewServer_def NewServer_port_def)
next
  case (Some p)
  then show ?thesis
    by (simp add: main_NewServer_def WithPort_at_def new_int_def NewServer_at_def
        NewServer_def NewServer_port_def WithPort_def)
qed

lemma main_NewServer_frame:
  "r < fresh m \<Longrightarrow> cells (snd (main_NewServer addr request m)) r = cells m r"
proof (cases request)
  case None
  then show ?thesis
    by (simp add: main_NewServer_def NewServer_at_memory)
next
  case (Some p)
  assume "r < fresh m"
  with Some show ?thesis
    by (simp add: main_NewServer_def WithPort_at_def new_int_def NewServer_at_memory)
qed

section \<open>The port policy\<close>

text \<open>
  In the functional-options idiom a caller who requests no port passes no option, and
  a caller who requests the port \<open>v\<close> passes \<^verbatim>\<open>WithPort(v)\<close>; in the procedural idiom
  the request is the pointer argument itself, \<^verbatim>\<open>nil\<close> when no port is requested.
\<close>

text \<open>
  C1. A negative port is rejected: with \<open>v < 0\<close>, the functional-options
  \<^verbatim>\<open>NewServer\<close> given \<^verbatim>\<open>WithPort(v)\<close> and the procedural \<^verbatim>\<open>NewServer\<close> given a pointer
  to \<open>v\<close> both return the error whose message is exactly "port cannot be negative";
  the result is on the error side, so no server and no port come out.
\<close>

theorem negative_port_rejected:
  "sint v < 0 \<Longrightarrow>
     NewServer addr [WithPort v] = Inl (Returned (errors_New ''port cannot be negative'')) \<and>
     NewServer_procedural addr (Some v) = Inl (Returned (errors_New ''port cannot be negative''))"
  by (simp add: NewServer_def NewServer_procedural_def WithPort_negative)

theorem negative_port_rejected_witness:
  "sint (- 1 :: go_int) < 0 \<and>
   NewServer ''localhost'' [WithPort (- 1)] = Inl (Returned (errors_New ''port cannot be negative'')) \<and>
   NewServer_procedural ''localhost'' (Some (- 1)) = Inl (Returned (errors_New ''port cannot be negative''))"
  using negative_port_rejected [of "- 1" "''localhost''"] by simp

text \<open>
  C2. A positive port is used verbatim: with \<open>v > 0\<close>, the loop stores \<open>v\<close>, the local
  \<^verbatim>\<open>port\<close> becomes \<open>v\<close>, and both idioms return a server whose address ends in the
  decimal text of \<open>v\<close>. Nothing bounds \<open>v\<close> from above; the witness takes 70000, which
  is above 65535. By \<open>Itoa_inject\<close> the text stands for no other port.
\<close>

theorem positive_port_verbatim:
  "0 < sint v \<Longrightarrow>
     apply_opts [WithPort v] \<lparr>options.port = None\<rparr> = (None, \<lparr>options.port = Some v\<rparr>) \<and>
     NewServer_port \<lparr>options.port = Some v\<rparr> = Inr v \<and>
     NewServer addr [WithPort v] = Inr \<lparr>Addr = addr @ '':'' @ Itoa v\<rparr> \<and>
     NewServer_procedural addr (Some v) = Inr \<lparr>Addr = addr @ '':'' @ Itoa v\<rparr>"
  by (simp add: NewServer_def NewServer_procedural_def NewServer_port_def WithPort_nonnegative)

theorem positive_port_verbatim_witness:
  "0 < sint (70000 :: go_int) \<and>
   apply_opts [WithPort 70000] \<lparr>options.port = None\<rparr> = (None, \<lparr>options.port = Some 70000\<rparr>) \<and>
   NewServer_port \<lparr>options.port = Some 70000\<rparr> = Inr 70000 \<and>
   NewServer ''localhost'' [WithPort 70000] = Inr \<lparr>Addr = ''localhost:70000''\<rparr> \<and>
   NewServer_procedural ''localhost'' (Some 70000) = Inr \<lparr>Addr = ''localhost:70000''\<rparr>"
  using positive_port_verbatim [of 70000 "''localhost''"] by (simp add: Itoa_eval)

text \<open>
  C3. The claim is that a call with no port succeeds with the default port 8080. The
  program does not: \<^verbatim>\<open>NewServer("localhost")\<close>, the call that the comment at lines
  139-140 gives as the way to get the defaults, leaves \<^verbatim>\<open>options.port\<close> at \<^verbatim>\<open>nil\<close>,
  passes the empty \<^verbatim>\<open>nil\<close> test at line 176, and panics at line 179 on
  \<^verbatim>\<open>*options.port\<close>. The theorem evaluates the program at that call.
\<close>

theorem absent_port_panics:
  "NewServer ''localhost'' [] = Inl NilDereference"
  by (simp add: NewServer_def NewServer_port_def)

text \<open>
  C4. A zero port asks for an ephemeral port: the local \<^verbatim>\<open>port\<close> stays zero and both
  idioms return a server bound to \<^verbatim>\<open>addr:0\<close>. The result is a server, not an error,
  and its address is not the one of port 8080.
\<close>

theorem zero_port_ephemeral:
  "NewServer_port \<lparr>options.port = Some 0\<rparr> = Inr 0 \<and>
   NewServer addr [WithPort 0] = Inr \<lparr>Addr = addr @ '':0''\<rparr> \<and>
   NewServer_procedural addr (Some 0) = Inr \<lparr>Addr = addr @ '':0''\<rparr> \<and>
   NewServer addr [WithPort 0] \<noteq> Inr \<lparr>Addr = addr @ '':8080''\<rparr>"
  by (simp add: NewServer_def NewServer_procedural_def NewServer_port_def WithPort_def Itoa_0)

text \<open>
  C5. The claim is that resolution is total and fails only on a negative port, with no
  crash when the port is absent. The program has a second way to fail: with no port,
  every idiom cited reads through the \<^verbatim>\<open>nil\<close> pointer. The functional-options
  \<^verbatim>\<open>NewServer\<close> panics at line 179, the procedural one at line 29, and the builder's
  \<^verbatim>\<open>build\<close> at line 118; in each the \<^verbatim>\<open>nil\<close> test is there, with an empty body.
\<close>

theorem absent_port_nil_dereference:
  "NewServer_port \<lparr>options.port = None\<rparr> = Inl NilDereference \<and>
   NewServer addr [] = Inl NilDereference \<and>
   NewServer_procedural addr None = Inl NilDereference \<and>
   build \<lparr>ConfigBuilder.port = None\<rparr> = Inl NilDereference"
  by (simp add: NewServer_def NewServer_port_def NewServer_procedural_def build_def)

text \<open>
  C6. Resolution is deterministic, with no hidden state and no side effect. Two calls
  with the same host and the same port request end in the same outcome (the same
  server, the same error or the same panic) whatever the memories \<open>m1\<close> and \<open>m2\<close> they
  start in, and so whatever addresses their variables get; in particular a second call
  that starts in the memory the first one left ends as the first did. A call changes
  no variable that was in use before it. And \<^verbatim>\<open>NewServer\<close> itself, given any
  \<^verbatim>\<open>Option\<close> values, leaves the whole memory as it found it, so that the same values
  passed once more give the same result; of the memory it reads only the variables
  these values captured.
\<close>

theorem NewServer_deterministic:
  "fst (main_NewServer addr request m1) = fst (main_NewServer addr request m2) \<and>
   fst (main_NewServer addr request (snd (main_NewServer addr request m1))) =
     fst (main_NewServer addr request m1) \<and>
   (\<forall>r. r < fresh m1 \<longrightarrow> cells (snd (main_NewServer addr request m1)) r = cells m1 r) \<and>
   snd (NewServer_at addr opts m1) = m1 \<and>
   NewServer_at addr opts (snd (NewServer_at addr opts m1)) = NewServer_at addr opts m1 \<and>
   ((\<forall>opt\<in>set opts. cells m1 (captured opt) = cells m2 (captured opt)) \<longrightarrow>
      fst (NewServer_at addr opts m1) = fst (NewServer_at addr opts m2))"
proof (intro conjI allI impI)
  show "fst (main_NewServer addr request m1) = fst (main_NewServer addr request m2)"
    by (simp only: main_NewServer_outcome)
  show "fst (main_NewServer addr request (snd (main_NewServer addr request m1))) =
      fst (main_NewServer addr request m1)"
    by (simp only: main_NewServer_outcome)
  show "snd (NewServer_at addr opts m1) = m1"
    by (rule NewServer_at_memory)
  then show "NewServer_at addr opts (snd (NewServer_at addr opts m1)) = NewServer_at addr opts m1"
    by simp
next
  fix r
  assume "r < fresh m1"
  then show "cells (snd (main_NewServer addr request m1)) r = cells m1 r"
    by (rule main_NewServer_frame)
next
  assume "\<forall>opt\<in>set opts. cells m1 (captured opt) = cells m2 (captured opt)"
  then show "fst (NewServer_at addr opts m1) = fst (NewServer_at addr opts m2)"
    by (rule NewServer_at_reads_captured)
qed

theorem NewServer_deterministic_witness:
  "fst (main_NewServer ''localhost'' (Some 8080) \<lparr>cells = \<lambda>r. 7, fresh = 3\<rparr>) =
     Inr \<lparr>Addr = ''localhost:8080''\<rparr> \<and>
   fst (main_NewServer ''localhost'' (Some 8080) \<lparr>cells = (\<lambda>r. 0)(1 := 7), fresh = 0\<rparr>) =
     Inr \<lparr>Addr = ''localhost:8080''\<rparr> \<and>
   (1 :: nat) < fresh \<lparr>cells = \<lambda>r. 7, fresh = 3\<rparr> \<and>
   cells (snd (main_NewServer ''localhost'' (Some 8080) \<lparr>cells = \<lambda>r. 7, fresh = 3\<rparr>)) 1 = 7 \<and>
   NewServer_at ''localhost'' [WithPort_func 1] \<lparr>cells = \<lambda>r. 7, fresh = 3\<rparr> =
     (Inr \<lparr>Addr = ''localhost:7''\<rparr>, \<lparr>cells = \<lambda>r. 7, fresh = 3\<rparr>) \<and>
   cells \<lparr>cells = \<lambda>r. 7, fresh = 3\<rparr> (captured (WithPort_func 1)) =
     cells \<lparr>cells = (\<lambda>r. 0)(1 := 7), fresh = 0\<rparr> (captured (WithPort_func 1)) \<and>
   fst (NewServer_at ''localhost'' [WithPort_func 1] \<lparr>cells = (\<lambda>r. 0)(1 := 7), fresh = 0\<rparr>) =
     Inr \<lparr>Addr = ''localhost:7''\<rparr>"
proof -
  have other:
    "fst (main_NewServer ''localhost'' (Some 8080) \<lparr>cells = (\<lambda>r. 0)(1 := 7), fresh = 0\<rparr>) =
       Inr \<lparr>Addr = ''localhost:8080''\<rparr>"
    by (simp add: main_NewServer_def WithPort_at_def new_int_def NewServer_at_def Itoa_eval)
  have out: "fst (NewServer_at ''localhost'' [WithPort_func 1] \<lparr>cells = \<lambda>r. 7, fresh = 3\<rparr>) =
      Inr \<lparr>Addr = ''localhost:7''\<rparr>"
    by (simp add: NewServer_at_def Itoa_eval)
  note determ = NewServer_deterministic [where addr = "''localhost''" and request = "Some 8080"
      and ?m1.0 = "\<lparr>cells = \<lambda>r. 7, fresh = 3\<rparr>"
      and ?m2.0 = "\<lparr>cells = (\<lambda>r. 0)(1 := 7), fresh = 0\<rparr>"
      and opts = "[WithPort_func 1]"]
  from determ other have
    "fst (main_NewServer ''localhost'' (Some 8080) \<lparr>cells = \<lambda>r. 7, fresh = 3\<rparr>) =
       Inr \<lparr>Addr = ''localhost:8080''\<rparr>"
    by simp
  moreover from determ have
    "cells (snd (main_NewServer ''localhost'' (Some 8080) \<lparr>cells = \<lambda>r. 7, fresh = 3\<rparr>)) 1 = 7"
    by simp
  moreover from determ out have
    "NewServer_at ''localhost'' [WithPort_func 1] \<lparr>cells = \<lambda>r. 7, fresh = 3\<rparr> =
       (Inr \<lparr>Addr = ''localhost:7''\<rparr>, \<lparr>cells = \<lambda>r. 7, fresh = 3\<rparr>)"
    by (metis prod.collapse)
  moreover from determ out have
    "fst (NewServer_at ''localhost'' [WithPort_func 1] \<lparr>cells = (\<lambda>r. 0)(1 := 7), fresh = 0\<rparr>) =
       Inr \<lparr>Addr = ''localhost:7''\<rparr>"
    by simp
  ultimately show ?thesis using other by simp
qed

text \<open>
  C7. The address of every server returned is the host string, then one colon, then
  the decimal text of the resolved port: for the functional-options idiom the port is
  the value of the local \<^verbatim>\<open>port\<close> after the loop, for the procedural idiom it is the
  pointee of the argument. The text of the ephemeral port is \<^verbatim>\<open>"0"\<close>.
\<close>

theorem server_address_format:
  "(NewServer addr opts = Inr srv \<longrightarrow>
      (\<exists>p. NewServer_port (snd (apply_opts opts \<lparr>options.port = None\<rparr>)) = Inr p \<and>
           Addr srv = addr @ '':'' @ Itoa p)) \<and>
   (NewServer_procedural addr ptr = Inr srv' \<longrightarrow>
      (\<exists>p. ptr = Some p \<and> Addr srv' = addr @ '':'' @ Itoa p)) \<and>
   Itoa 0 = ''0''"
proof (intro conjI impI)
  assume ok: "NewServer addr opts = Inr srv"
  obtain e s where loop: "apply_opts opts \<lparr>options.port = None\<rparr> = (e, s)"
    by (cases "apply_opts opts \<lparr>options.port = None\<rparr>")
  from ok loop have "e = None"
    by (cases e) (simp_all add: NewServer_def)
  with ok loop obtain p where "NewServer_port s = Inr p" and "srv = \<lparr>Addr = addr @ '':'' @ Itoa p\<rparr>"
    by (cases "NewServer_port s") (auto simp: NewServer_def)
  with loop show "\<exists>p. NewServer_port (snd (apply_opts opts \<lparr>options.port = None\<rparr>)) = Inr p \<and>
      Addr srv = addr @ '':'' @ Itoa p"
    by simp
next
  assume "NewServer_procedural addr ptr = Inr srv'"
  then show "\<exists>p. ptr = Some p \<and> Addr srv' = addr @ '':'' @ Itoa p"
    by (cases ptr) (auto simp: NewServer_procedural_def split: if_splits)
next
  show "Itoa 0 = ''0''" by (rule Itoa_0)
qed

theorem server_address_format_witness:
  "NewServer ''localhost'' [WithPort 0] = Inr \<lparr>Addr = ''localhost:0''\<rparr> \<and>
   (\<exists>p. NewServer_port (snd (apply_opts [WithPort 0] \<lparr>options.port = None\<rparr>)) = Inr p \<and>
        Addr \<lparr>Addr = ''localhost:0''\<rparr> = ''localhost'' @ '':'' @ Itoa p) \<and>
   NewServer_procedural ''localhost'' (Some 8080) = Inr \<lparr>Addr = ''localhost:8080''\<rparr> \<and>
   (\<exists>p. Some 8080 = Some p \<and> Addr \<lparr>Addr = ''localhost:8080''\<rparr> = ''localhost'' @ '':'' @ Itoa p)"
proof -
  have a: "NewServer ''localhost'' [WithPort 0] = Inr \<lparr>Addr = ''localhost:0''\<rparr>"
    by (simp add: NewServer_def NewServer_port_def WithPort_def Itoa_0)
  have b: "NewServer_procedural ''localhost'' (Some 8080) = Inr \<lparr>Addr = ''localhost:8080''\<rparr>"
    by (simp add: NewServer_procedural_def Itoa_eval)
  from a b server_address_format [of "''localhost''" "[WithPort 0]" "\<lparr>Addr = ''localhost:0''\<rparr>"
      "Some 8080" "\<lparr>Addr = ''localhost:8080''\<rparr>"]
  show ?thesis by blast
qed

section \<open>Several options\<close>

text \<open>
  C8. The last \<^verbatim>\<open>WithPort\<close> wins: when \<^verbatim>\<open>NewServer\<close> is given one \<^verbatim>\<open>WithPort\<close> option for
  each element of a non-empty list of non-negative ports, the loop ends without error
  with the last port stored, and the server is bound to that port.
\<close>

theorem last_WithPort_wins:
  assumes "vs \<noteq> []" and "\<forall>v\<in>set vs. 0 \<le> sint v"
  shows "apply_opts (map WithPort vs) \<lparr>options.port = None\<rparr> = (None, \<lparr>options.port = Some (last vs)\<rparr>) \<and>
         NewServer_port \<lparr>options.port = Some (last vs)\<rparr> = Inr (last vs) \<and>
         NewServer addr (map WithPort vs) = Inr \<lparr>Addr = addr @ '':'' @ Itoa (last vs)\<rparr>"
proof -
  from assms(1) have split: "vs = butlast vs @ [last vs]" by simp
  from assms have "\<forall>v\<in>set (butlast vs). \<not> sint v < 0"
    by (auto dest: in_set_butlastD simp: not_less)
  moreover from assms have "\<not> sint (last vs) < 0"
    by (simp add: not_less)
  ultimately have
    "apply_opts (map WithPort (butlast vs @ [last vs])) \<lparr>options.port = None\<rparr> =
       (None, \<lparr>options.port = None\<rparr>\<lparr>options.port := Some (last vs)\<rparr>)"
    by (rule apply_opts_WithPort_snoc)
  with split have loop:
    "apply_opts (map WithPort vs) \<lparr>options.port = None\<rparr> = (None, \<lparr>options.port = Some (last vs)\<rparr>)"
    by simp
  have port: "NewServer_port \<lparr>options.port = Some (last vs)\<rparr> = Inr (last vs)"
    by (simp add: NewServer_port_def)
  from loop port show ?thesis
    by (simp add: NewServer_def)
qed

theorem last_WithPort_wins_witness:
  "[8080, 0, 9090 :: go_int] \<noteq> [] \<and>
   apply_opts (map WithPort [8080, 0, 9090]) \<lparr>options.port = None\<rparr> = (None, \<lparr>options.port = Some 9090\<rparr>) \<and>
   NewServer_port \<lparr>options.port = Some 9090\<rparr> = Inr 9090 \<and>
   NewServer ''localhost'' (map WithPort [8080, 0, 9090]) = Inr \<lparr>Addr = ''localhost:9090''\<rparr>"
proof -
  have "\<forall>v\<in>set [8080, 0, 9090 :: go_int]. 0 \<le> sint v" by simp
  with last_WithPort_wins [of "[8080, 0, 9090]" "''localhost''"] show ?thesis
    by (simp add: Itoa_eval)
qed

text \<open>
  C9. A failing option leaves no trace. \<^verbatim>\<open>WithPort(v)\<close> with \<open>v < 0\<close> returns the error
  and the struct exactly as it received it. And \<^verbatim>\<open>NewServer\<close> stops at the first option
  that fails: if the options \<open>pre\<close> all succeed and leave the struct \<open>s1\<close>, and \<open>opt\<close>
  fails on \<open>s1\<close>, then the loop ends with that error and with the struct as \<open>opt\<close>
  left it, whatever options \<open>post\<close> come after, and \<^verbatim>\<open>NewServer\<close> returns the error.
\<close>

theorem WithPort_negative_atomic:
  "(sint v < 0 \<longrightarrow> WithPort v s = (Some (errors_New ''port cannot be negative''), s)) \<and>
   (apply_opts pre \<lparr>options.port = None\<rparr> = (None, s1) \<and> opt s1 = (Some err, s2) \<longrightarrow>
      apply_opts (pre @ opt # post) \<lparr>options.port = None\<rparr> = (Some err, s2) \<and>
      NewServer addr (pre @ opt # post) = Inl (Returned err))"
proof (intro conjI impI)
  assume "sint v < 0"
  then show "WithPort v s = (Some (errors_New ''port cannot be negative''), s)"
    by (rule WithPort_negative)
next
  assume a: "apply_opts pre \<lparr>options.port = None\<rparr> = (None, s1) \<and> opt s1 = (Some err, s2)"
  then have "apply_opts (pre @ opt # post) \<lparr>options.port = None\<rparr> = apply_opts (opt # post) s1"
    by (simp add: apply_opts_append)
  with a show loop: "apply_opts (pre @ opt # post) \<lparr>options.port = None\<rparr> = (Some err, s2)"
    by simp
  then show "NewServer addr (pre @ opt # post) = Inl (Returned err)"
    by (simp add: NewServer_def)
qed

theorem WithPort_negative_atomic_witness:
  "sint (- 1 :: go_int) < 0 \<and>
   WithPort (- 1) \<lparr>options.port = Some 5\<rparr> = (Some (errors_New ''port cannot be negative''), \<lparr>options.port = Some 5\<rparr>) \<and>
   apply_opts [WithPort 5] \<lparr>options.port = None\<rparr> = (None, \<lparr>options.port = Some 5\<rparr>) \<and>
   apply_opts ([WithPort 5] @ WithPort (- 1) # [WithPort 9]) \<lparr>options.port = None\<rparr> =
     (Some (errors_New ''port cannot be negative''), \<lparr>options.port = Some 5\<rparr>) \<and>
   NewServer ''localhost'' ([WithPort 5] @ WithPort (- 1) # [WithPort 9]) =
     Inl (Returned (errors_New ''port cannot be negative''))"
proof -
  have neg: "sint (- 1 :: go_int) < 0" by simp
  have pre: "apply_opts [WithPort 5] \<lparr>options.port = None\<rparr> = (None, \<lparr>options.port = Some 5\<rparr>)"
    by (simp add: WithPort_def)
  from neg pre
    WithPort_negative_atomic [of "- 1" "\<lparr>options.port = Some 5\<rparr>" "[WithPort 5]"
      "\<lparr>options.port = Some 5\<rparr>" "WithPort (- 1)" "errors_New ''port cannot be negative''"
      "\<lparr>options.port = Some 5\<rparr>" "[WithPort 9]" "''localhost''"]
  show ?thesis by simp
qed

section \<open>The builder\<close>

text \<open>
  C10. The builder's \<^verbatim>\<open>Port\<close> stores any integer and cannot fail: it returns the
  builder with the pointer set to its argument, negative or not. The test comes with
  \<^verbatim>\<open>build\<close>, which returns the error "port cannot be negative" exactly when the stored
  port is negative and the configuration holding the port otherwise.
\<close>

theorem builder_Port_defers_validation:
  "Port b v = b\<lparr>ConfigBuilder.port := Some v\<rparr> \<and>
   ConfigBuilder.port (Port b v) = Some v \<and>
   build (Port b v) =
     (if sint v < 0 then Inl (Returned (errors_New ''port cannot be negative''))
      else Inr \<lparr>Config.Port = Some v\<rparr>)"
  by (simp add: Port_def build_def)

end
